theory Spec2Isabelle
  imports Main
begin

section \<open>The relay handler of handler.go\<close>

text \<open>
  The program is one Go file: \<^verbatim>\<open>HandleLambdaEvent\<close>, which validates its event, asks
  CodePipeline for the execution, picks the source revision, resolves the repository
  name from the revision's URL with \<^verbatim>\<open>extractRepoName\<close>, and posts a commit status
  to GitHub. Go strings are byte strings, modelled as \<open>string\<close>.
\<close>

subsection \<open>Data\<close>

text \<open>
  The part of \<^verbatim>\<open>*url.URL\<close> that \<^verbatim>\<open>extractRepoName\<close> reads: the result of the method
  \<^verbatim>\<open>Hostname()\<close> (the host without a port), the field \<^verbatim>\<open>Path\<close> (as \<^verbatim>\<open>url.Parse\<close>
  stores it, percent-decoded), and the result of \<^verbatim>\<open>Query()\<close>, a \<^verbatim>\<open>url.Values\<close>
  (\<^verbatim>\<open>map[string][]string\<close>, keys and values decoded), kept as an association list read
  through \<open>map_of\<close>.
\<close>

record URL =
  Hostname :: string
  Path :: string
  Query :: "(string \<times> string list) list"

text \<open>
  A Go \<^verbatim>\<open>error\<close>. \<open>ErrorString m\<close> is \<^verbatim>\<open>errors.New(m)\<close>, and also \<^verbatim>\<open>fmt.Errorf\<close> without
  \<^verbatim>\<open>%w\<close>, whose result carries nothing but its message \<open>m\<close>.
  \<open>ExtractRepoNameFailed u e\<close> is line 85,
  \<^verbatim>\<open>fmt.Errorf("failed to extract repo name from artifact url %v: %w", url, err)\<close>:
  it wraps \<open>e\<close> and prints the URL \<open>u\<close>.
\<close>

datatype error =
    ErrorString string
  | ExtractRepoNameFailed URL error

subsection \<open>Library functions the resolver calls\<close>

text \<open>
  \<^verbatim>\<open>strings.Split(s, sep)\<close> for a separator of one byte, which is how line 130 calls it
  (\<^verbatim>\<open>"/"\<close>): the substrings of \<open>s\<close> between the separators, in order. The result is
  never empty: a string without separator gives the one-element list of itself.
\<close>

fun strings_Split :: "string \<Rightarrow> char \<Rightarrow> string list" where
  "strings_Split [] sep = [[]]"
| "strings_Split (c # s) sep =
     (if c = sep then [] # strings_Split s sep
      else (case strings_Split s sep of
              [] \<Rightarrow> [[c]]
            | p # ps \<Rightarrow> (c # p) # ps))"

text \<open>
  \<^verbatim>\<open>Values.Get(key)\<close>: the first value stored under the key, and the empty string when
  the key is absent or has no values.
\<close>

definition Values_Get :: "(string \<times> string list) list \<Rightarrow> string \<Rightarrow> string" where
  "Values_Get v key =
     (case map_of v key of
        None \<Rightarrow> []
      | Some [] \<Rightarrow> []
      | Some (x # _) \<Rightarrow> x)"

subsection \<open>The resolver\<close>

text \<open>
  Lines 127 to 147. A Go return \<^verbatim>\<open>("", err)\<close> is \<open>Inl err\<close>; \<^verbatim>\<open>(repo, nil)\<close> is \<open>Inr repo\<close>.
  The reads \<^verbatim>\<open>p[1]\<close> and \<^verbatim>\<open>p[2]\<close> stand behind the length check, so they are in range.
\<close>

definition extractRepoName :: "URL \<Rightarrow> error + string" where
  "extractRepoName url =
     (if Hostname url = ''github.com'' then
        (let p = strings_Split (Path url) CHR ''/'' in
         if length p < 3 then Inl (ErrorString ''too few path components'')
         else Inr (p ! 1 @ ''/'' @ p ! 2))
      else if Hostname url = ''eu-west-1.console.aws.amazon.com'' then
        (if Path url \<noteq> ''/codesuite/settings/connections/redirect''
         then Inl (ErrorString (''unexpected URL path: '' @ Path url))
         else (let repo = Values_Get (Query url) ''FullRepositoryId'' in
               if repo = [] then Inl (ErrorString ''missing FullRepositoryId URL param'')
               else Inr repo))
      else Inl (ErrorString (''unknown hostname '' @ Hostname url)))"

text \<open>
  The invariant the specification gives a repository identifier, in its words: exactly one
  \<^verbatim>\<open>/\<close>, separating two non-empty segments.
\<close>

definition isRepositoryIdentifier :: "string \<Rightarrow> bool" where
  "isRepositoryIdentifier r =
     (case strings_Split r CHR ''/'' of
        [a, b] \<Rightarrow> a \<noteq> [] \<and> b \<noteq> []
      | _ \<Rightarrow> False)"

subsection \<open>The status mapper\<close>

text \<open>The \<^verbatim>\<open>switch status\<close> of lines 73 to 81, which assigns \<^verbatim>\<open>ghStatus\<close>.\<close>

definition ghStatus :: "string \<Rightarrow> string" where
  "ghStatus status =
     (if status = ''InProgress'' then ''pending''
      else if status = ''Succeeded'' then ''success''
      else ''failure'')"

subsection \<open>The handler's data\<close>

text \<open>The event (lines 19 to 23) and the payload posted to GitHub (lines 25 to 30).\<close>

record event =
  ExecutionID :: string
  GithubToken :: string
  Pipeline :: string

record ghReqPayload =
  State :: string
  TargetURL :: string
  Description :: string
  Context :: string

text \<open>
  What the handler reads of the SDK's \<^verbatim>\<open>codepipeline.ArtifactRevision\<close> and
  \<^verbatim>\<open>codepipeline.PipelineExecution\<close>. Their \<^verbatim>\<open>*string\<close> fields are options, read through
  \<^verbatim>\<open>aws.StringValue\<close> as the handler does. The struct pointers themselves (the output, its
  \<^verbatim>\<open>PipelineExecution\<close>, the elements of \<^verbatim>\<open>ArtifactRevisions\<close>) are taken as the SDK
  delivers them on success, allocated.
\<close>

record ArtifactRevision =
  Name :: "string option"
  RevisionId :: "string option"
  RevisionUrl :: "string option"

record PipelineExecution =
  ArtifactRevisions :: "ArtifactRevision list"
  Status :: "string option"

record GetPipelineExecutionInput =
  PipelineExecutionId :: string
  PipelineName :: string

definition aws_StringValue :: "string option \<Rightarrow> string" where
  "aws_StringValue v = (case v of None \<Rightarrow> [] | Some s \<Rightarrow> s)"

text \<open>
  The request handed to \<^verbatim>\<open>client.Do\<close> (method, URL, headers, body bytes) and what the
  handler reads of the response: its status code and the bytes \<^verbatim>\<open>ioutil.ReadAll\<close> returns
  for its body (the handler drops the error of that read).
\<close>

record Request =
  Method :: string
  RequestURL :: string
  Header :: "(string \<times> string list) list"
  RequestBody :: string

record Response =
  StatusCode :: int
  Body :: string

text \<open>
  \<^verbatim>\<open>Header.Set(key, value)\<close> replaces the values stored under the key. The three keys the
  handler sets are in canonical form already.
\<close>

fun Header_Set :: "(string \<times> string list) list \<Rightarrow> string \<Rightarrow> string \<Rightarrow> (string \<times> string list) list" where
  "Header_Set [] key v = [(key, [v])]"
| "Header_Set ((k, vs) # h) key v =
     (if k = key then (key, [v]) # h else (k, vs) # Header_Set h key v)"

subsection \<open>The outside world\<close>

text \<open>
  Everything the handler calls outside this file is a field of the world: whether
  \<^verbatim>\<open>session.NewSession()\<close> fails, the answer of CodePipeline's \<^verbatim>\<open>GetPipelineExecution\<close>,
  the result of \<^verbatim>\<open>url.Parse\<close>, how \<^verbatim>\<open>encoding/json\<close> writes a string literal, whether
  \<^verbatim>\<open>http.NewRequest\<close> accepts a method and URL, and the answer of \<^verbatim>\<open>client.Do\<close>.
  The handler returns, next to its result, the calls it made that leave the process, in
  order. The two \<^verbatim>\<open>log.Printf\<close> lines are not modelled.
\<close>

record World =
  session_NewSession :: "error option"
  GetPipelineExecution :: "GetPipelineExecutionInput \<Rightarrow> error + PipelineExecution"
  url_Parse :: "string \<Rightarrow> error + URL"
  json_string :: "string \<Rightarrow> string"
  http_NewRequest :: "string \<Rightarrow> string \<Rightarrow> error option"
  client_Do :: "Request \<Rightarrow> error + Response"

datatype call =
    CallNewSession
  | CallGetPipelineExecution GetPipelineExecutionInput
  | CallDo Request

text \<open>
  The handler returns an error or \<^verbatim>\<open>nil\<close>, or panics: \<^verbatim>\<open>session.Must\<close> panics with the
  error of \<^verbatim>\<open>session.NewSession()\<close>.
\<close>

datatype outcome =
    Returned "error option"
  | Panicked error

subsection \<open>Formatting\<close>

text \<open>The verb \<^verbatim>\<open>%d\<close> of \<^verbatim>\<open>fmt\<close> on an \<^verbatim>\<open>int\<close>: decimal digits, a minus sign first when negative.\<close>

definition digit :: "nat \<Rightarrow> char" where
  "digit d = ''0123456789'' ! d"

function FormatUint :: "nat \<Rightarrow> string" where
  "FormatUint n = (if n < 10 then [digit n] else FormatUint (n div 10) @ [digit (n mod 10)])"
  by pat_completeness auto
termination
  by (relation "measure id") auto

definition FormatInt :: "int \<Rightarrow> string" where
  "FormatInt i = (if i < 0 then CHR ''-'' # FormatUint (nat (- i)) else FormatUint (nat i))"

text \<open>
  \<^verbatim>\<open>json.NewEncoder(&b).Encode(p)\<close> on a \<^verbatim>\<open>ghReqPayload\<close>: an object with one member per
  struct field, in the order of the fields and under the names of their \<^verbatim>\<open>json\<close> tags,
  followed by a newline. None of the four tags says \<^verbatim>\<open>omitempty\<close>, so every member is
  written, whatever its value. \<open>q\<close> writes a string literal (quotes and escapes). A struct
  of strings written to a \<^verbatim>\<open>bytes.Buffer\<close> gives no error.
\<close>

definition json_member :: "(string \<Rightarrow> string) \<Rightarrow> string \<Rightarrow> string \<Rightarrow> string" where
  "json_member q name v = [CHR 0x22] @ name @ [CHR 0x22] @ '':'' @ q v"

definition json_Encode :: "(string \<Rightarrow> string) \<Rightarrow> ghReqPayload \<Rightarrow> error + string" where
  "json_Encode q p =
     Inr (''{'' @ json_member q ''state'' (State p) @
          '','' @ json_member q ''target_url'' (TargetURL p) @
          '','' @ json_member q ''description'' (Description p) @
          '','' @ json_member q ''context'' (Context p) @
          ''}'' @ [CHR 0x0A])"

subsection \<open>The handler\<close>

text \<open>The loop of lines 54 to 60: the first revision named \<^verbatim>\<open>SourceArtifact\<close>, or \<^verbatim>\<open>nil\<close>.\<close>

fun findSourceArtifact :: "ArtifactRevision list \<Rightarrow> ArtifactRevision option" where
  "findSourceArtifact [] = None"
| "findSourceArtifact (a # as) =
     (if aws_StringValue (Name a) = ''SourceArtifact'' then Some a
      else findSourceArtifact as)"

text \<open>
  Lines 65 to 124, the handler from the chosen revision on: \<open>status\<close> is
  \<^verbatim>\<open>aws.StringValue(res.PipelineExecution.Status)\<close>. The list returned holds the calls made
  here, which is the POST or nothing.
\<close>

definition postStatus :: "World \<Rightarrow> event \<Rightarrow> string \<Rightarrow> ArtifactRevision \<Rightarrow> outcome \<times> call list" where
  "postStatus w ev status sourceArti =
     (let rev = aws_StringValue (RevisionId sourceArti) in
      case url_Parse w (aws_StringValue (RevisionUrl sourceArti)) of
        Inl err \<Rightarrow> (Returned (Some err), [])
      | Inr url \<Rightarrow>
          (case extractRepoName url of
             Inl err \<Rightarrow> (Returned (Some (ExtractRepoNameFailed url err)), [])
           | Inr repo \<Rightarrow>
               (let deepLink = ''https://'' @ ''eu-west-1'' @
                      ''.console.aws.amazon.com/codesuite/codepipeline/pipelines/'' @
                      Pipeline ev @ ''/executions/'' @ ExecutionID ev;
                    ghURL = ''https://api.github.com/repos/'' @ repo @ ''/statuses/'' @ rev
                in
                case json_Encode (json_string w)
                       \<lparr>State = ghStatus status, TargetURL = deepLink, Description = [],
                        Context = ''continuous-integration/codepipeline''\<rparr> of
                  Inl err \<Rightarrow> (Returned (Some err), [])
                | Inr b \<Rightarrow>
                    (case http_NewRequest w ''POST'' ghURL of
                       Some err \<Rightarrow> (Returned (Some err), [])
                     | None \<Rightarrow>
                         (let ghReq =
                                \<lparr>Method = ''POST'', RequestURL = ghURL,
                                 Header =
                                   Header_Set
                                     (Header_Set
                                        (Header_Set [] ''Accept'' ''application/json'')
                                        ''Authorization'' (''token '' @ GithubToken ev))
                                     ''Content-Type'' ''application/json; charset=utf-8'',
                                 RequestBody = b\<rparr>
                          in
                          case client_Do w ghReq of
                            Inl err \<Rightarrow> (Returned (Some err), [CallDo ghReq])
                          | Inr ghRes \<Rightarrow>
                              if StatusCode ghRes \<noteq> 201
                              then (Returned (Some (ErrorString
                                      (''unexpected response from GitHub: '' @
                                       FormatInt (StatusCode ghRes) @ '' body: '' @
                                       Body ghRes))),
                                    [CallDo ghReq])
                              else (Returned None, [CallDo ghReq]))))))"

text \<open>Lines 33 to 63, and then \<open>postStatus\<close>.\<close>

definition HandleLambdaEvent :: "World \<Rightarrow> event \<Rightarrow> outcome \<times> call list" where
  "HandleLambdaEvent w ev =
     (if ExecutionID ev = [] then
        (Returned (Some (ErrorString ''missing event param execution-id'')), [])
      else if GithubToken ev = [] then
        (Returned (Some (ErrorString ''missing event param github-token'')), [])
      else if Pipeline ev = [] then
        (Returned (Some (ErrorString ''missing event param pipeline'')), [])
      else
        (case session_NewSession w of
           Some err \<Rightarrow> (Panicked err, [CallNewSession])
         | None \<Rightarrow>
             (let input = \<lparr>PipelineExecutionId = ExecutionID ev, PipelineName = Pipeline ev\<rparr>;
                  calls = [CallNewSession, CallGetPipelineExecution input]
              in
              case GetPipelineExecution w input of
                Inl err \<Rightarrow> (Returned (Some err), calls)
              | Inr pe \<Rightarrow>
                  (case findSourceArtifact (ArtifactRevisions pe) of
                     None \<Rightarrow> (Returned (Some (ErrorString ''missing SourceArtifact'')), calls)
                   | Some sourceArti \<Rightarrow>
                       (case postStatus w ev (aws_StringValue (Status pe)) sourceArti of
                          (r, posts) \<Rightarrow> (r, calls @ posts))))))"

subsection \<open>A scenario\<close>

text \<open>
  The end-to-end scenario of the specification, used to run the handler on concrete
  input: the event, a revision record whose URL is the commit page of \<^verbatim>\<open>acme/widgets\<close>,
  and a world in which the execution has succeeded with the given revisions and GitHub
  answers the POST with the given response.
\<close>

definition scenario_event :: event where
  "scenario_event = \<lparr>ExecutionID = ''exec1'', GithubToken = ''tok'', Pipeline = ''pipe1''\<rparr>"

definition scenario_revision :: "string \<Rightarrow> string \<Rightarrow> ArtifactRevision" where
  "scenario_revision name commit =
     \<lparr>Name = Some name, RevisionId = Some commit,
      RevisionUrl = Some ''https://github.com/acme/widgets/commit/abc123''\<rparr>"

definition scenario_world :: "ArtifactRevision list \<Rightarrow> Response \<Rightarrow> World" where
  "scenario_world revs res =
     \<lparr>session_NewSession = None,
      GetPipelineExecution =
        (\<lambda>i. Inr \<lparr>ArtifactRevisions = revs, Status = Some ''Succeeded''\<rparr>),
      url_Parse =
        (\<lambda>s. if s = ''https://github.com/acme/widgets/commit/abc123''
             then Inr \<lparr>Hostname = ''github.com'', Path = ''/acme/widgets/commit/abc123'',
                       Query = []\<rparr>
             else Inl (ErrorString ''parse'')),
      json_string = (\<lambda>s. [CHR 0x22] @ s @ [CHR 0x22]),
      http_NewRequest = (\<lambda>m u. None),
      client_Do = (\<lambda>r. Inr res)\<rparr>"

text \<open>
  The request the handler posts in that scenario: the status endpoint of commit
  \<^verbatim>\<open>abc123\<close> of \<^verbatim>\<open>acme/widgets\<close>, the three headers, and the body written out byte by
  byte (\<open>CHR 0x22\<close> is the double quote, \<open>CHR 0x0A\<close> the newline).
\<close>

definition scenario_request :: Request where
  "scenario_request =
     \<lparr>Method = ''POST'',
      RequestURL = ''https://api.github.com/repos/acme/widgets/statuses/abc123'',
      Header = [(''Accept'', [''application/json'']),
                (''Authorization'', [''token tok'']),
                (''Content-Type'', [''application/json; charset=utf-8''])],
      RequestBody =
        ''{'' @ [CHR 0x22] @ ''state'' @ [CHR 0x22] @ '':'' @
               [CHR 0x22] @ ''success'' @ [CHR 0x22] @
        '','' @ [CHR 0x22] @ ''target_url'' @ [CHR 0x22] @ '':'' @
               [CHR 0x22] @ ''https://eu-west-1.console.aws.amazon.com/codesuite/codepipeline/pipelines/pipe1/executions/exec1'' @ [CHR 0x22] @
        '','' @ [CHR 0x22] @ ''description'' @ [CHR 0x22] @ '':'' @
               [CHR 0x22] @ [CHR 0x22] @
        '','' @ [CHR 0x22] @ ''context'' @ [CHR 0x22] @ '':'' @
               [CHR 0x22] @ ''continuous-integration/codepipeline'' @ [CHR 0x22] @
        ''}'' @ [CHR 0x0A]\<rparr>"

declare FormatUint.simps [simp del]

section \<open>Properties of the splitting\<close>

lemma strings_Split_nonempty: "strings_Split s sep \<noteq> []"
  by (induction s) (auto split: list.splits)

lemma strings_Split_no_sep: "sep \<notin> set s \<Longrightarrow> strings_Split s sep = [s]"
  by (induction s) auto

lemma strings_Split_append:
  "sep \<notin> set a \<Longrightarrow> strings_Split (a @ sep # b) sep = a # strings_Split b sep"
  by (induction a) auto

lemma strings_Split_segments: "p \<in> set (strings_Split s sep) \<Longrightarrow> sep \<notin> set p"
proof (induction s arbitrary: p)
  case Nil
  then show ?case by simp
next
  case (Cons c s)
  show ?case
  proof (cases "c = sep")
    case True
    with Cons show ?thesis by auto
  next
    case False
    obtain q qs where q: "strings_Split s sep = q # qs"
      using strings_Split_nonempty [of s sep] by (cases "strings_Split s sep") auto
    with Cons.prems False have "p = c # q \<or> p \<in> set qs" by auto
    then show ?thesis
    proof
      assume "p = c # q"
      moreover have "sep \<notin> set q" using Cons.IH [of q] q by simp
      ultimately show ?thesis using False by auto
    next
      assume "p \<in> set qs"
      then show ?thesis using Cons.IH [of p] q by simp
    qed
  qed
qed

lemma count_no_sep: "c \<notin> set s \<Longrightarrow> count_list s c = 0"
  by (induction s) auto

section \<open>The resolver\<close>

text \<open>
  Claim C1. A locator whose host is \<^verbatim>\<open>github.com\<close> and whose path, split at \<^verbatim>\<open>/\<close>, has at
  least three segments is resolved to segment 1, a \<^verbatim>\<open>/\<close>, and segment 2 (counted from 0).
  In particular a path \<^verbatim>\<open>/owner/repo\<close>, alone or followed by \<^verbatim>\<open>/...\<close>, with no \<^verbatim>\<open>/\<close> inside
  \<open>owner\<close> and \<open>repo\<close>, is resolved to \<^verbatim>\<open>owner/repo\<close>.
\<close>

theorem extractRepoName_source_host:
  assumes "Hostname url = ''github.com''"
  shows "(3 \<le> length (strings_Split (Path url) CHR ''/'') \<longrightarrow>
            extractRepoName url =
              Inr (strings_Split (Path url) CHR ''/'' ! 1 @ ''/'' @
                   strings_Split (Path url) CHR ''/'' ! 2))
       \<and> (Path url = ''/'' @ owner @ ''/'' @ repo @ rest \<and>
          CHR ''/'' \<notin> set owner \<and> CHR ''/'' \<notin> set repo \<and>
          (rest = [] \<or> hd rest = CHR ''/'') \<longrightarrow>
            extractRepoName url = Inr (owner @ ''/'' @ repo))"
proof (intro conjI impI)
  assume "3 \<le> length (strings_Split (Path url) CHR ''/'')"
  with assms show "extractRepoName url =
      Inr (strings_Split (Path url) CHR ''/'' ! 1 @ ''/'' @ strings_Split (Path url) CHR ''/'' ! 2)"
    by (simp add: extractRepoName_def Let_def)
next
  assume a: "Path url = ''/'' @ owner @ ''/'' @ repo @ rest \<and>
          CHR ''/'' \<notin> set owner \<and> CHR ''/'' \<notin> set repo \<and>
          (rest = [] \<or> hd rest = CHR ''/'')"
  then obtain tail where t: "strings_Split (repo @ rest) CHR ''/'' = repo # tail"
  proof (cases rest)
    case Nil
    with a that show ?thesis by (simp add: strings_Split_no_sep)
  next
    case (Cons r rs)
    with a have "rest = CHR ''/'' # rs" by auto
    with a that show ?thesis by (simp add: strings_Split_append)
  qed
  have "strings_Split (Path url) CHR ''/'' = [] # owner # repo # tail"
    using a t strings_Split_append [of "CHR ''/''" owner "repo @ rest"] by simp
  with assms show "extractRepoName url = Inr (owner @ ''/'' @ repo)"
    by (simp add: extractRepoName_def Let_def)
qed

theorem extractRepoName_source_host_witness:
  "extractRepoName \<lparr>Hostname = ''github.com'', Path = ''/acme/widgets/commit/abc123'', Query = []\<rparr>
     = Inr ''acme/widgets''"
  using extractRepoName_source_host [of "\<lparr>Hostname = ''github.com'', Path = ''/acme/widgets/commit/abc123'', Query = []\<rparr>"
      "''acme''" "''widgets''" "''/commit/abc123''"]
  by simp

text \<open>
  Claim C4. On host \<^verbatim>\<open>github.com\<close>, a path with fewer than two segments after the host fails
  with \<^verbatim>\<open>too few path components\<close>. The segments are those of the split at \<^verbatim>\<open>/\<close>; the ones
  after the host are all but the first, which is what stands before the leading \<^verbatim>\<open>/\<close>.
\<close>

theorem extractRepoName_too_few:
  assumes "Hostname url = ''github.com''"
    and "length (tl (strings_Split (Path url) CHR ''/'')) < 2"
  shows "extractRepoName url = Inl (ErrorString ''too few path components'')"
  using assms by (simp add: extractRepoName_def Let_def)

theorem extractRepoName_too_few_witness:
  "extractRepoName \<lparr>Hostname = ''github.com'', Path = ''/acme'', Query = []\<rparr>
     = Inl (ErrorString ''too few path components'')"
  using extractRepoName_too_few [of "\<lparr>Hostname = ''github.com'', Path = ''/acme'', Query = []\<rparr>"]
  by simp

text \<open>
  Claim C5. On host \<^verbatim>\<open>eu-west-1.console.aws.amazon.com\<close> with the exact redirect path, a
  query whose parameter \<^verbatim>\<open>FullRepositoryId\<close> has a non-empty (first) value \<open>v\<close> is resolved to
  \<open>v\<close>, unchanged.
\<close>

theorem extractRepoName_redirect:
  assumes "Hostname url = ''eu-west-1.console.aws.amazon.com''"
    and "Path url = ''/codesuite/settings/connections/redirect''"
    and "map_of (Query url) ''FullRepositoryId'' = Some (v # vs)"
    and "v \<noteq> []"
  shows "extractRepoName url = Inr v"
  using assms by (simp add: extractRepoName_def Values_Get_def)

theorem extractRepoName_redirect_witness:
  "extractRepoName
     \<lparr>Hostname = ''eu-west-1.console.aws.amazon.com'',
      Path = ''/codesuite/settings/connections/redirect'',
      Query = [(''FullRepositoryId'', [''acme/widgets''])]\<rparr> = Inr ''acme/widgets''"
  using extractRepoName_redirect
    [of "\<lparr>Hostname = ''eu-west-1.console.aws.amazon.com'',
          Path = ''/codesuite/settings/connections/redirect'',
          Query = [(''FullRepositoryId'', [''acme/widgets''])]\<rparr>" "''acme/widgets''" "[]"]
  by simp

text \<open>
  Claim C6. The three rejections, each with its own message: on the redirect host a path
  other than the redirect path gives \<^verbatim>\<open>unexpected URL path: \<close> and the path; the redirect
  path with \<^verbatim>\<open>FullRepositoryId\<close> absent, without values or with an empty first value gives
  \<^verbatim>\<open>missing FullRepositoryId URL param\<close>; a host that is neither of the two gives
  \<^verbatim>\<open>unknown hostname \<close> and the host.
\<close>

theorem extractRepoName_rejections:
  "(Hostname url = ''eu-west-1.console.aws.amazon.com'' \<and>
    Path url \<noteq> ''/codesuite/settings/connections/redirect'' \<longrightarrow>
      extractRepoName url = Inl (ErrorString (''unexpected URL path: '' @ Path url)))
 \<and> (Hostname url = ''eu-west-1.console.aws.amazon.com'' \<and>
    Path url = ''/codesuite/settings/connections/redirect'' \<and>
    (map_of (Query url) ''FullRepositoryId'' = None \<or>
     map_of (Query url) ''FullRepositoryId'' = Some [] \<or>
     (\<exists>vs. map_of (Query url) ''FullRepositoryId'' = Some ([] # vs))) \<longrightarrow>
      extractRepoName url = Inl (ErrorString ''missing FullRepositoryId URL param''))
 \<and> (Hostname url \<noteq> ''github.com'' \<and>
    Hostname url \<noteq> ''eu-west-1.console.aws.amazon.com'' \<longrightarrow>
      extractRepoName url = Inl (ErrorString (''unknown hostname '' @ Hostname url)))"
  by (auto simp add: extractRepoName_def Values_Get_def)

theorem extractRepoName_rejections_witness:
  "extractRepoName
     \<lparr>Hostname = ''eu-west-1.console.aws.amazon.com'', Path = ''/codesuite/settings'',
      Query = [(''FullRepositoryId'', [''acme/widgets''])]\<rparr>
     = Inl (ErrorString ''unexpected URL path: /codesuite/settings'')
 \<and> extractRepoName
     \<lparr>Hostname = ''eu-west-1.console.aws.amazon.com'',
      Path = ''/codesuite/settings/connections/redirect'', Query = [(''Other'', [''x''])]\<rparr>
     = Inl (ErrorString ''missing FullRepositoryId URL param'')
 \<and> extractRepoName
     \<lparr>Hostname = ''eu-west-1.console.aws.amazon.com'',
      Path = ''/codesuite/settings/connections/redirect'', Query = [(''FullRepositoryId'', [''''])]\<rparr>
     = Inl (ErrorString ''missing FullRepositoryId URL param'')
 \<and> extractRepoName \<lparr>Hostname = ''gitlab.com'', Path = ''/acme/widgets'', Query = []\<rparr>
     = Inl (ErrorString ''unknown hostname gitlab.com'')"
  using
    extractRepoName_rejections
      [of "\<lparr>Hostname = ''eu-west-1.console.aws.amazon.com'', Path = ''/codesuite/settings'',
            Query = [(''FullRepositoryId'', [''acme/widgets''])]\<rparr>"]
    extractRepoName_rejections
      [of "\<lparr>Hostname = ''eu-west-1.console.aws.amazon.com'',
            Path = ''/codesuite/settings/connections/redirect'', Query = [(''Other'', [''x''])]\<rparr>"]
    extractRepoName_rejections
      [of "\<lparr>Hostname = ''eu-west-1.console.aws.amazon.com'',
            Path = ''/codesuite/settings/connections/redirect'', Query = [(''FullRepositoryId'', [''''])]\<rparr>"]
    extractRepoName_rejections
      [of "\<lparr>Hostname = ''gitlab.com'', Path = ''/acme/widgets'', Query = []\<rparr>"]
  by simp

text \<open>
  Claim C2, as amended. When the resolver succeeds on host \<^verbatim>\<open>github.com\<close>, its result has
  exactly one \<^verbatim>\<open>/\<close>, and the two sides of it are non-empty exactly when segments 1 and 2 of
  the path are; on the redirect host the result is the \<^verbatim>\<open>FullRepositoryId\<close> value, which is
  non-empty and otherwise unchecked. The claim as stated fails: the path \<^verbatim>\<open>/acme/\<close> resolves
  to \<^verbatim>\<open>acme/\<close>, and a parameter \<^verbatim>\<open>acme\<close> is returned without any \<^verbatim>\<open>/\<close>.
\<close>

theorem extractRepoName_result_shape:
  assumes "extractRepoName url = Inr r"
  shows "(Hostname url = ''github.com'' \<longrightarrow>
            count_list r CHR ''/'' = 1 \<and>
            (isRepositoryIdentifier r \<longleftrightarrow>
               strings_Split (Path url) CHR ''/'' ! 1 \<noteq> [] \<and>
               strings_Split (Path url) CHR ''/'' ! 2 \<noteq> []))
       \<and> (Hostname url \<noteq> ''github.com'' \<longrightarrow>
            r \<noteq> [] \<and> r = Values_Get (Query url) ''FullRepositoryId'')"
proof (intro conjI impI)
  assume h: "Hostname url = ''github.com''"
  let ?p = "strings_Split (Path url) CHR ''/''"
  from assms h have len: "3 \<le> length ?p" and r: "r = ?p ! 1 @ ''/'' @ ?p ! 2"
    by (auto simp add: extractRepoName_def Let_def split: if_splits)
  have a: "CHR ''/'' \<notin> set (?p ! 1)" and b: "CHR ''/'' \<notin> set (?p ! 2)"
    using len strings_Split_segments [of _ "Path url" "CHR ''/''"] by (auto simp add: nth_mem)
  show "count_list r CHR ''/'' = 1"
    using a b r by (simp add: count_no_sep)
  have "strings_Split r CHR ''/'' = [?p ! 1, ?p ! 2]"
    using a b r strings_Split_append [of "CHR ''/''" "?p ! 1" "?p ! 2"]
    by (simp add: strings_Split_no_sep)
  then show "isRepositoryIdentifier r \<longleftrightarrow> ?p ! 1 \<noteq> [] \<and> ?p ! 2 \<noteq> []"
    by (simp add: isRepositoryIdentifier_def)
next
  assume "Hostname url \<noteq> ''github.com''"
  with assms have "r \<noteq> [] \<and> r = Values_Get (Query url) ''FullRepositoryId''"
    by (auto simp add: extractRepoName_def Let_def split: if_splits)
  then show "r \<noteq> []" and "r = Values_Get (Query url) ''FullRepositoryId''"
    by blast+
qed

theorem extractRepoName_result_shape_witness:
  "extractRepoName \<lparr>Hostname = ''github.com'', Path = ''/acme/widgets/commit/abc123'', Query = []\<rparr>
     = Inr ''acme/widgets''
 \<and> count_list ''acme/widgets'' CHR ''/'' = 1 \<and> isRepositoryIdentifier ''acme/widgets''
 \<and> extractRepoName
       \<lparr>Hostname = ''eu-west-1.console.aws.amazon.com'',
        Path = ''/codesuite/settings/connections/redirect'',
        Query = [(''FullRepositoryId'', [''acme/widgets/extra''])]\<rparr> = Inr ''acme/widgets/extra''
 \<and> Values_Get [(''FullRepositoryId'', [''acme/widgets/extra''])] ''FullRepositoryId''
       = ''acme/widgets/extra''"
  using
    extractRepoName_result_shape
      [of "\<lparr>Hostname = ''github.com'', Path = ''/acme/widgets/commit/abc123'', Query = []\<rparr>"
          "''acme/widgets''"]
    extractRepoName_result_shape
      [of "\<lparr>Hostname = ''eu-west-1.console.aws.amazon.com'',
            Path = ''/codesuite/settings/connections/redirect'',
            Query = [(''FullRepositoryId'', [''acme/widgets/extra''])]\<rparr>"
          "''acme/widgets/extra''"]
  by (simp add: extractRepoName_def Values_Get_def)

theorem extractRepoName_invariant_counterexample:
  "extractRepoName \<lparr>Hostname = ''github.com'', Path = ''/acme/'', Query = []\<rparr> = Inr ''acme/''
 \<and> \<not> isRepositoryIdentifier ''acme/''
 \<and> extractRepoName
       \<lparr>Hostname = ''eu-west-1.console.aws.amazon.com'',
        Path = ''/codesuite/settings/connections/redirect'',
        Query = [(''FullRepositoryId'', [''acme''])]\<rparr> = Inr ''acme''
 \<and> \<not> isRepositoryIdentifier ''acme''"
  by (simp add: extractRepoName_def Values_Get_def isRepositoryIdentifier_def)

section \<open>The status mapper\<close>

text \<open>
  Claim C3. The mapper is a function from strings to strings, with a value for every
  input and no error among its values: \<^verbatim>\<open>InProgress\<close> gives \<^verbatim>\<open>pending\<close>, \<^verbatim>\<open>Succeeded\<close> gives
  \<^verbatim>\<open>success\<close>, and every other string, the empty one included, gives \<^verbatim>\<open>failure\<close>.
\<close>

theorem ghStatus_exact:
  "ghStatus ''InProgress'' = ''pending''
 \<and> ghStatus ''Succeeded'' = ''success''
 \<and> (\<forall>s. s \<noteq> ''InProgress'' \<and> s \<noteq> ''Succeeded'' \<longrightarrow> ghStatus s = ''failure'')
 \<and> (\<forall>s. ghStatus s = ''pending'' \<or> ghStatus s = ''success'' \<or> ghStatus s = ''failure'')"
  by (simp add: ghStatus_def)

theorem ghStatus_exact_witness:
  "ghStatus '''' = ''failure'' \<and> ghStatus ''Failed'' = ''failure''
 \<and> ghStatus ''Stopped'' = ''failure'' \<and> ghStatus ''succeeded'' = ''failure''"
proof -
  have other: "\<forall>s. s \<noteq> ''InProgress'' \<and> s \<noteq> ''Succeeded'' \<longrightarrow> ghStatus s = ''failure''"
    using ghStatus_exact by blast
  have "ghStatus '''' = ''failure''" using other by simp
  moreover have "ghStatus ''Failed'' = ''failure''" using other by simp
  moreover have "ghStatus ''Stopped'' = ''failure''" using other by simp
  moreover have "ghStatus ''succeeded'' = ''failure''" using other by simp
  ultimately show ?thesis by simp
qed

section \<open>The handler\<close>

lemmas scenario_defs =
  scenario_event_def scenario_revision_def scenario_world_def scenario_request_def

text \<open>
  What a run that posted looks like: the POST is the only call \<open>postStatus\<close> makes, its
  body encodes the payload, and the result follows from the answer.
\<close>

lemma postStatus_post:
  assumes "postStatus w ev status a = (r, posts)" and "CallDo req \<in> set posts"
  shows "posts = [CallDo req]
       \<and> json_Encode (json_string w)
            \<lparr>State = ghStatus status,
             TargetURL = ''https://eu-west-1.console.aws.amazon.com/codesuite/codepipeline/pipelines/'' @
                         Pipeline ev @ ''/executions/'' @ ExecutionID ev,
             Description = [],
             Context = ''continuous-integration/codepipeline''\<rparr> = Inr (RequestBody req)
       \<and> r = (case client_Do w req of
                Inl err \<Rightarrow> Returned (Some err)
              | Inr res \<Rightarrow>
                  if StatusCode res = 201 then Returned None
                  else Returned (Some (ErrorString
                         (''unexpected response from GitHub: '' @ FormatInt (StatusCode res) @
                          '' body: '' @ Body res))))"
  using assms
  by (auto simp add: postStatus_def Let_def split: sum.splits option.splits if_splits)

lemma HandleLambdaEvent_post:
  assumes "HandleLambdaEvent w ev = (r, calls)" and "CallDo req \<in> set calls"
  shows "\<exists>pe a. GetPipelineExecution w
                  \<lparr>PipelineExecutionId = ExecutionID ev, PipelineName = Pipeline ev\<rparr> = Inr pe
              \<and> findSourceArtifact (ArtifactRevisions pe) = Some a
              \<and> postStatus w ev (aws_StringValue (Status pe)) a = (r, [CallDo req])"
proof -
  from assms obtain pe a posts where
    g: "GetPipelineExecution w
          \<lparr>PipelineExecutionId = ExecutionID ev, PipelineName = Pipeline ev\<rparr> = Inr pe"
    and f: "findSourceArtifact (ArtifactRevisions pe) = Some a"
    and p: "postStatus w ev (aws_StringValue (Status pe)) a = (r, posts)"
    and c: "CallDo req \<in> set posts"
    by (auto simp add: HandleLambdaEvent_def Let_def
        split: sum.splits option.splits if_splits prod.splits)
  from postStatus_post [OF p c] have "posts = [CallDo req]" by simp
  with g f p show ?thesis by blast
qed

lemma findSourceArtifact_first:
  "list_all (\<lambda>b. aws_StringValue (Name b) \<noteq> ''SourceArtifact'') xs \<Longrightarrow>
   aws_StringValue (Name a) = ''SourceArtifact'' \<Longrightarrow>
   findSourceArtifact (xs @ a # ys) = Some a"
  by (induction xs) auto

lemma findSourceArtifact_none:
  "list_all (\<lambda>b. aws_StringValue (Name b) \<noteq> ''SourceArtifact'') xs \<Longrightarrow>
   findSourceArtifact xs = None"
  by (induction xs) auto

text \<open>
  The scenario, run: the handler's result is that of \<open>postStatus\<close> at the revision, after
  the session and the lookup.
\<close>

lemma scenario_postStatus:
  "postStatus (scenario_world revs \<lparr>StatusCode = 201, Body = []\<rparr>) scenario_event
     ''Succeeded'' (scenario_revision ''SourceArtifact'' ''abc123'') =
   (Returned None, [CallDo scenario_request])"
  by (simp add: scenario_defs postStatus_def extractRepoName_def json_Encode_def
      json_member_def ghStatus_def aws_StringValue_def Let_def)

lemma scenario_run:
  "HandleLambdaEvent
     (scenario_world [scenario_revision ''SourceArtifact'' ''abc123''] res) scenario_event =
   (fst (postStatus (scenario_world [scenario_revision ''SourceArtifact'' ''abc123''] res)
           scenario_event ''Succeeded'' (scenario_revision ''SourceArtifact'' ''abc123'')),
    [CallNewSession,
     CallGetPipelineExecution \<lparr>PipelineExecutionId = ''exec1'', PipelineName = ''pipe1''\<rparr>] @
    snd (postStatus (scenario_world [scenario_revision ''SourceArtifact'' ''abc123''] res)
           scenario_event ''Succeeded'' (scenario_revision ''SourceArtifact'' ''abc123'')))"
  by (simp add: HandleLambdaEvent_def scenario_event_def scenario_world_def
      scenario_revision_def aws_StringValue_def Let_def split: prod.splits)

text \<open>
  Claim C7. An event with an empty field is refused before anything outside the process
  is called: the result is the error \<^verbatim>\<open>missing event param\<close> followed by the name of the
  first empty field, in the order \<^verbatim>\<open>execution-id\<close>, \<^verbatim>\<open>github-token\<close>, \<^verbatim>\<open>pipeline\<close>, and the
  list of calls is empty, so neither the lookup nor the POST has happened.
\<close>

theorem HandleLambdaEvent_validation:
  "(ExecutionID ev = [] \<longrightarrow>
      HandleLambdaEvent w ev =
        (Returned (Some (ErrorString ''missing event param execution-id'')), []))
 \<and> (ExecutionID ev \<noteq> [] \<and> GithubToken ev = [] \<longrightarrow>
      HandleLambdaEvent w ev =
        (Returned (Some (ErrorString ''missing event param github-token'')), []))
 \<and> (ExecutionID ev \<noteq> [] \<and> GithubToken ev \<noteq> [] \<and> Pipeline ev = [] \<longrightarrow>
      HandleLambdaEvent w ev =
        (Returned (Some (ErrorString ''missing event param pipeline'')), []))"
  by (simp add: HandleLambdaEvent_def)

theorem HandleLambdaEvent_validation_witness:
  "HandleLambdaEvent (scenario_world [] \<lparr>StatusCode = 201, Body = []\<rparr>)
     \<lparr>ExecutionID = [], GithubToken = ''tok'', Pipeline = ''pipe1''\<rparr> =
     (Returned (Some (ErrorString ''missing event param execution-id'')), [])
 \<and> HandleLambdaEvent (scenario_world [] \<lparr>StatusCode = 201, Body = []\<rparr>)
     \<lparr>ExecutionID = ''exec1'', GithubToken = [], Pipeline = []\<rparr> =
     (Returned (Some (ErrorString ''missing event param github-token'')), [])
 \<and> HandleLambdaEvent (scenario_world [] \<lparr>StatusCode = 201, Body = []\<rparr>)
     \<lparr>ExecutionID = ''exec1'', GithubToken = ''tok'', Pipeline = []\<rparr> =
     (Returned (Some (ErrorString ''missing event param pipeline'')), [])"
  using
    HandleLambdaEvent_validation
      [of "\<lparr>ExecutionID = [], GithubToken = ''tok'', Pipeline = ''pipe1''\<rparr>"
          "scenario_world [] \<lparr>StatusCode = 201, Body = []\<rparr>"]
    HandleLambdaEvent_validation
      [of "\<lparr>ExecutionID = ''exec1'', GithubToken = [], Pipeline = []\<rparr>"
          "scenario_world [] \<lparr>StatusCode = 201, Body = []\<rparr>"]
    HandleLambdaEvent_validation
      [of "\<lparr>ExecutionID = ''exec1'', GithubToken = ''tok'', Pipeline = []\<rparr>"
          "scenario_world [] \<lparr>StatusCode = 201, Body = []\<rparr>"]
  by simp

text \<open>
  Claim C8. Once the execution is fetched, the handler goes on with the first revision
  named \<^verbatim>\<open>SourceArtifact\<close>, whatever stands after it in the list: the run is the session, the
  lookup, and \<open>postStatus\<close> at that revision. When no revision has that name the handler
  returns \<^verbatim>\<open>missing SourceArtifact\<close>, and the calls made are the session and the lookup,
  without a POST.
\<close>

theorem HandleLambdaEvent_source_artifact:
  assumes "ExecutionID ev \<noteq> []" and "GithubToken ev \<noteq> []" and "Pipeline ev \<noteq> []"
    and "session_NewSession w = None"
    and "GetPipelineExecution w
           \<lparr>PipelineExecutionId = ExecutionID ev, PipelineName = Pipeline ev\<rparr> = Inr pe"
  shows "(ArtifactRevisions pe = xs @ a # ys \<and>
          list_all (\<lambda>b. aws_StringValue (Name b) \<noteq> ''SourceArtifact'') xs \<and>
          aws_StringValue (Name a) = ''SourceArtifact'' \<longrightarrow>
            HandleLambdaEvent w ev =
              (fst (postStatus w ev (aws_StringValue (Status pe)) a),
               [CallNewSession,
                CallGetPipelineExecution
                  \<lparr>PipelineExecutionId = ExecutionID ev, PipelineName = Pipeline ev\<rparr>] @
               snd (postStatus w ev (aws_StringValue (Status pe)) a)))
       \<and> (list_all (\<lambda>b. aws_StringValue (Name b) \<noteq> ''SourceArtifact'') (ArtifactRevisions pe) \<longrightarrow>
            HandleLambdaEvent w ev =
              (Returned (Some (ErrorString ''missing SourceArtifact'')),
               [CallNewSession,
                CallGetPipelineExecution
                  \<lparr>PipelineExecutionId = ExecutionID ev, PipelineName = Pipeline ev\<rparr>]))"
proof (intro conjI impI)
  assume "ArtifactRevisions pe = xs @ a # ys \<and>
          list_all (\<lambda>b. aws_StringValue (Name b) \<noteq> ''SourceArtifact'') xs \<and>
          aws_StringValue (Name a) = ''SourceArtifact''"
  then have "findSourceArtifact (ArtifactRevisions pe) = Some a"
    by (simp add: findSourceArtifact_first)
  with assms show "HandleLambdaEvent w ev =
              (fst (postStatus w ev (aws_StringValue (Status pe)) a),
               [CallNewSession,
                CallGetPipelineExecution
                  \<lparr>PipelineExecutionId = ExecutionID ev, PipelineName = Pipeline ev\<rparr>] @
               snd (postStatus w ev (aws_StringValue (Status pe)) a))"
    by (simp add: HandleLambdaEvent_def Let_def split: prod.splits)
next
  assume "list_all (\<lambda>b. aws_StringValue (Name b) \<noteq> ''SourceArtifact'') (ArtifactRevisions pe)"
  then have "findSourceArtifact (ArtifactRevisions pe) = None"
    by (rule findSourceArtifact_none)
  with assms show "HandleLambdaEvent w ev =
              (Returned (Some (ErrorString ''missing SourceArtifact'')),
               [CallNewSession,
                CallGetPipelineExecution
                  \<lparr>PipelineExecutionId = ExecutionID ev, PipelineName = Pipeline ev\<rparr>])"
    by (simp add: HandleLambdaEvent_def Let_def)
qed

theorem HandleLambdaEvent_source_artifact_witness:
  "HandleLambdaEvent
     (scenario_world
        [scenario_revision ''BuildArtifact'' ''000000'',
         scenario_revision ''SourceArtifact'' ''abc123'',
         scenario_revision ''SourceArtifact'' ''def456'']
        \<lparr>StatusCode = 201, Body = []\<rparr>)
     scenario_event =
     (Returned None,
      [CallNewSession,
       CallGetPipelineExecution \<lparr>PipelineExecutionId = ''exec1'', PipelineName = ''pipe1''\<rparr>,
       CallDo scenario_request])
 \<and> HandleLambdaEvent
     (scenario_world [scenario_revision ''BuildArtifact'' ''000000'']
        \<lparr>StatusCode = 201, Body = []\<rparr>)
     scenario_event =
     (Returned (Some (ErrorString ''missing SourceArtifact'')),
      [CallNewSession,
       CallGetPipelineExecution \<lparr>PipelineExecutionId = ''exec1'', PipelineName = ''pipe1''\<rparr>])"
proof -
  let ?ok = "\<lparr>StatusCode = 201, Body = []\<rparr>"
  let ?revs = "[scenario_revision ''BuildArtifact'' ''000000'',
                scenario_revision ''SourceArtifact'' ''abc123'',
                scenario_revision ''SourceArtifact'' ''def456'']"
  have "HandleLambdaEvent (scenario_world ?revs ?ok) scenario_event =
     (Returned None,
      [CallNewSession,
       CallGetPipelineExecution \<lparr>PipelineExecutionId = ''exec1'', PipelineName = ''pipe1''\<rparr>,
       CallDo scenario_request])"
    using HandleLambdaEvent_source_artifact
      [of scenario_event "scenario_world ?revs ?ok"
          "\<lparr>ArtifactRevisions = ?revs, Status = Some ''Succeeded''\<rparr>"
          "[scenario_revision ''BuildArtifact'' ''000000'']"
          "scenario_revision ''SourceArtifact'' ''abc123''"
          "[scenario_revision ''SourceArtifact'' ''def456'']"]
      scenario_postStatus [of ?revs]
    by (simp add: scenario_event_def scenario_world_def scenario_revision_def
        aws_StringValue_def)
  moreover have "HandleLambdaEvent
     (scenario_world [scenario_revision ''BuildArtifact'' ''000000''] ?ok) scenario_event =
     (Returned (Some (ErrorString ''missing SourceArtifact'')),
      [CallNewSession,
       CallGetPipelineExecution \<lparr>PipelineExecutionId = ''exec1'', PipelineName = ''pipe1''\<rparr>])"
    using HandleLambdaEvent_source_artifact
      [of scenario_event
          "scenario_world [scenario_revision ''BuildArtifact'' ''000000''] ?ok"
          "\<lparr>ArtifactRevisions = [scenario_revision ''BuildArtifact'' ''000000''],
            Status = Some ''Succeeded''\<rparr>"]
    by (simp add: scenario_event_def scenario_world_def scenario_revision_def
        aws_StringValue_def)
  ultimately show ?thesis by simp
qed

text \<open>
  Claim C9. When GitHub answers the POST, the handler returns \<^verbatim>\<open>nil\<close> exactly when the
  status code is 201. Any other code gives the error
  \<^verbatim>\<open>unexpected response from GitHub: <code> body: <body>\<close>, the code in decimal and the body
  as it was read.
\<close>

theorem HandleLambdaEvent_response:
  assumes "HandleLambdaEvent w ev = (r, calls)"
    and "CallDo req \<in> set calls"
    and "client_Do w req = Inr res"
  shows "(r = Returned None \<longleftrightarrow> StatusCode res = 201)
       \<and> (StatusCode res \<noteq> 201 \<longrightarrow>
            r = Returned (Some (ErrorString
                  (''unexpected response from GitHub: '' @ FormatInt (StatusCode res) @
                   '' body: '' @ Body res))))"
proof -
  from HandleLambdaEvent_post [OF assms(1,2)] obtain pe :: PipelineExecution and a where
    p: "postStatus w ev (aws_StringValue (Status pe)) a = (r, [CallDo req])"
    by auto
  from postStatus_post [OF p] assms(3) have
    "r = (if StatusCode res = 201 then Returned None
          else Returned (Some (ErrorString
                 (''unexpected response from GitHub: '' @ FormatInt (StatusCode res) @
                  '' body: '' @ Body res))))"
    by simp
  then show ?thesis by simp
qed

theorem HandleLambdaEvent_response_witness:
  "HandleLambdaEvent
     (scenario_world [scenario_revision ''SourceArtifact'' ''abc123'']
        \<lparr>StatusCode = 422, Body = ''Validation Failed''\<rparr>)
     scenario_event =
     (Returned (Some (ErrorString
        ''unexpected response from GitHub: 422 body: Validation Failed'')),
      [CallNewSession,
       CallGetPipelineExecution \<lparr>PipelineExecutionId = ''exec1'', PipelineName = ''pipe1''\<rparr>,
       CallDo scenario_request])
 \<and> HandleLambdaEvent
     (scenario_world [scenario_revision ''SourceArtifact'' ''abc123'']
        \<lparr>StatusCode = 201, Body = ''{}''\<rparr>)
     scenario_event =
     (Returned None,
      [CallNewSession,
       CallGetPipelineExecution \<lparr>PipelineExecutionId = ''exec1'', PipelineName = ''pipe1''\<rparr>,
       CallDo scenario_request])"
proof -
  let ?calls = "[CallNewSession,
       CallGetPipelineExecution \<lparr>PipelineExecutionId = ''exec1'', PipelineName = ''pipe1''\<rparr>,
       CallDo scenario_request]"
  have posted: "snd (HandleLambdaEvent
                  (scenario_world [scenario_revision ''SourceArtifact'' ''abc123''] res)
                  scenario_event) = ?calls" for res
    by (simp only: scenario_run snd_conv)
      (simp add: scenario_defs postStatus_def extractRepoName_def
        json_Encode_def json_member_def ghStatus_def aws_StringValue_def Let_def)
  have run: "HandleLambdaEvent
               (scenario_world [scenario_revision ''SourceArtifact'' ''abc123''] res)
               scenario_event =
             (fst (HandleLambdaEvent
                     (scenario_world [scenario_revision ''SourceArtifact'' ''abc123''] res)
                     scenario_event), ?calls)" for res
    using posted [of res] by (metis prod.collapse)
  have answer: "client_Do (scenario_world [scenario_revision ''SourceArtifact'' ''abc123''] res)
                  scenario_request = Inr res" for res
    by (simp add: scenario_world_def)
  have digits: "FormatInt 422 = ''422''"
    by (simp add: FormatInt_def FormatUint.simps digit_def)
  have "fst (HandleLambdaEvent
               (scenario_world [scenario_revision ''SourceArtifact'' ''abc123'']
                  \<lparr>StatusCode = 422, Body = ''Validation Failed''\<rparr>)
               scenario_event) =
          Returned (Some (ErrorString
            ''unexpected response from GitHub: 422 body: Validation Failed''))"
    using HandleLambdaEvent_response [OF run _ answer,
        of "\<lparr>StatusCode = 422, Body = ''Validation Failed''\<rparr>"] digits
    by simp
  moreover have "fst (HandleLambdaEvent
               (scenario_world [scenario_revision ''SourceArtifact'' ''abc123'']
                  \<lparr>StatusCode = 201, Body = ''{}''\<rparr>)
               scenario_event) = Returned None"
    using HandleLambdaEvent_response [OF run _ answer,
        of "\<lparr>StatusCode = 201, Body = ''{}''\<rparr>"]
    by simp
  ultimately show ?thesis
    using run [of "\<lparr>StatusCode = 422, Body = ''Validation Failed''\<rparr>"]
      run [of "\<lparr>StatusCode = 201, Body = ''{}''\<rparr>"]
    by simp
qed

text \<open>
  Claim C10. The body of every request the handler posts is the encoding of the payload
  whose \<^verbatim>\<open>state\<close> is the mapped status of the fetched execution, whose \<^verbatim>\<open>target_url\<close> is
  the console link of the event's pipeline and execution in \<^verbatim>\<open>eu-west-1\<close>, whose
  \<^verbatim>\<open>description\<close> is empty and whose \<^verbatim>\<open>context\<close> is
  \<^verbatim>\<open>continuous-integration/codepipeline\<close>. All four members are written, the empty
  description included.
\<close>

theorem HandleLambdaEvent_payload:
  assumes "HandleLambdaEvent w ev = (r, calls)" and "CallDo req \<in> set calls"
  shows "\<exists>pe. GetPipelineExecution w
                \<lparr>PipelineExecutionId = ExecutionID ev, PipelineName = Pipeline ev\<rparr> = Inr pe
            \<and> json_Encode (json_string w)
                 \<lparr>State = ghStatus (aws_StringValue (Status pe)),
                  TargetURL =
                    ''https://eu-west-1.console.aws.amazon.com/codesuite/codepipeline/pipelines/'' @
                    Pipeline ev @ ''/executions/'' @ ExecutionID ev,
                  Description = [],
                  Context = ''continuous-integration/codepipeline''\<rparr> = Inr (RequestBody req)
            \<and> RequestBody req =
                 ''{'' @ json_member (json_string w) ''state''
                          (ghStatus (aws_StringValue (Status pe))) @
                 '','' @ json_member (json_string w) ''target_url''
                          (''https://eu-west-1.console.aws.amazon.com/codesuite/codepipeline/pipelines/'' @
                           Pipeline ev @ ''/executions/'' @ ExecutionID ev) @
                 '','' @ json_member (json_string w) ''description'' [] @
                 '','' @ json_member (json_string w) ''context''
                          ''continuous-integration/codepipeline'' @
                 ''}'' @ [CHR 0x0A]"
proof -
  from HandleLambdaEvent_post [OF assms] obtain pe :: PipelineExecution and a where
    g: "GetPipelineExecution w
          \<lparr>PipelineExecutionId = ExecutionID ev, PipelineName = Pipeline ev\<rparr> = Inr pe"
    and p: "postStatus w ev (aws_StringValue (Status pe)) a = (r, [CallDo req])"
    by auto
  from postStatus_post [OF p] have
    e: "json_Encode (json_string w)
          \<lparr>State = ghStatus (aws_StringValue (Status pe)),
           TargetURL =
             ''https://eu-west-1.console.aws.amazon.com/codesuite/codepipeline/pipelines/'' @
             Pipeline ev @ ''/executions/'' @ ExecutionID ev,
           Description = [],
           Context = ''continuous-integration/codepipeline''\<rparr> = Inr (RequestBody req)"
    by simp
  then have "RequestBody req =
                 ''{'' @ json_member (json_string w) ''state''
                          (ghStatus (aws_StringValue (Status pe))) @
                 '','' @ json_member (json_string w) ''target_url''
                          (''https://eu-west-1.console.aws.amazon.com/codesuite/codepipeline/pipelines/'' @
                           Pipeline ev @ ''/executions/'' @ ExecutionID ev) @
                 '','' @ json_member (json_string w) ''description'' [] @
                 '','' @ json_member (json_string w) ''context''
                          ''continuous-integration/codepipeline'' @
                 ''}'' @ [CHR 0x0A]"
    by (simp add: json_Encode_def)
  with g e show ?thesis by blast
qed


theorem HandleLambdaEvent_payload_witness:
  "HandleLambdaEvent
     (scenario_world [scenario_revision ''SourceArtifact'' ''abc123'']
        \<lparr>StatusCode = 201, Body = []\<rparr>)
     scenario_event =
     (Returned None,
      [CallNewSession,
       CallGetPipelineExecution \<lparr>PipelineExecutionId = ''exec1'', PipelineName = ''pipe1''\<rparr>,
       CallDo scenario_request])
 \<and> json_Encode (\<lambda>s. [CHR 0x22] @ s @ [CHR 0x22])
       \<lparr>State = ''success'',
        TargetURL = ''https://eu-west-1.console.aws.amazon.com/codesuite/codepipeline/pipelines/pipe1/executions/exec1'',
        Description = [],
        Context = ''continuous-integration/codepipeline''\<rparr> = Inr (RequestBody scenario_request)"
proof -
  let ?w = "scenario_world [scenario_revision ''SourceArtifact'' ''abc123'']
              \<lparr>StatusCode = 201, Body = []\<rparr>"
  let ?calls = "[CallNewSession,
       CallGetPipelineExecution \<lparr>PipelineExecutionId = ''exec1'', PipelineName = ''pipe1''\<rparr>,
       CallDo scenario_request]"
  have run: "HandleLambdaEvent ?w scenario_event = (Returned None, ?calls)"
    by (simp add: scenario_run scenario_postStatus)
  have "\<exists>pe. GetPipelineExecution ?w
                \<lparr>PipelineExecutionId = ExecutionID scenario_event,
                 PipelineName = Pipeline scenario_event\<rparr> = Inr pe
            \<and> json_Encode (json_string ?w)
                 \<lparr>State = ghStatus (aws_StringValue (Status pe)),
                  TargetURL =
                    ''https://eu-west-1.console.aws.amazon.com/codesuite/codepipeline/pipelines/'' @
                    Pipeline scenario_event @ ''/executions/'' @ ExecutionID scenario_event,
                  Description = [],
                  Context = ''continuous-integration/codepipeline''\<rparr> =
                Inr (RequestBody scenario_request)"
    using HandleLambdaEvent_payload [OF run, of scenario_request] by auto
  then have "json_Encode (\<lambda>s. [CHR 0x22] @ s @ [CHR 0x22])
       \<lparr>State = ''success'',
        TargetURL = ''https://eu-west-1.console.aws.amazon.com/codesuite/codepipeline/pipelines/pipe1/executions/exec1'',
        Description = [],
        Context = ''continuous-integration/codepipeline''\<rparr> = Inr (RequestBody scenario_request)"
    by (auto simp add: scenario_world_def scenario_event_def ghStatus_def aws_StringValue_def)
  with run show ?thesis by simp
qed

end
